theory Spec2Isabelle
  imports Main "HOL-Library.AList"
begin

section \<open>Python values, exceptions and string primitives\<close>

text \<open>
  The two binders verified here are \<^verbatim>\<open>Request\<close> of \<^verbatim>\<open>aiopenapi3/v20/glue.py\<close> (Swagger 2.0)
  and \<^verbatim>\<open>Operation.request\<close> of \<^verbatim>\<open>openapi3/paths.py\<close> (OpenAPI 3.0).

  A Python \<^verbatim>\<open>str\<close> is a \<open>string\<close>; the texts that matter here (header values, media types,
  status codes, path templates) are ASCII. Values supplied by the caller are \<open>pyvalue\<close>s.
  \<open>PyDict\<close> is a \<^verbatim>\<open>dict\<close> with string keys in insertion order, \<open>PyModel\<close> a typed model
  instance (\<^verbatim>\<open>pydantic.BaseModel\<close> in glue.py, \<^verbatim>\<open>openapi3.schemas.Model\<close> in paths.py) given by
  its fields.
\<close>

datatype pyvalue =
    PyNone
  | PyBool bool
  | PyInt int
  | PyStr string
  | PyTuple "pyvalue list"
  | PyList "pyvalue list"
  | PyDict "(string \<times> pyvalue) list"
  | PyModel "(string \<times> pyvalue) list"

text \<open>Every \<^verbatim>\<open>raise\<close> of the source, and every exception of a failing attribute or key access.\<close>

datatype error =
    ValueError string
  | TypeError pyvalue
  | KeyError string
  | AttributeError string
  | RuntimeError string
  | NotImplementedError string

text \<open>Sequential composition of fallible steps: an exception skips the rest.\<close>

definition and_then :: "error + 'a \<Rightarrow> ('a \<Rightarrow> error + 'b) \<Rightarrow> error + 'b" where
  "and_then r f = (case r of Inl e \<Rightarrow> Inl e | Inr x \<Rightarrow> f x)"

text \<open>\<^verbatim>\<open>str.lower()\<close> on ASCII text: only \<^verbatim>\<open>A\<close>..\<^verbatim>\<open>Z\<close> change.\<close>

definition lower_char :: "char \<Rightarrow> char" where
  "lower_char c =
     (case map_of (zip ''ABCDEFGHIJKLMNOPQRSTUVWXYZ'' ''abcdefghijklmnopqrstuvwxyz'') c of
        Some d \<Rightarrow> d
      | None \<Rightarrow> c)"

definition str_lower :: "string \<Rightarrow> string" where
  "str_lower s = map lower_char s"

text \<open>\<^verbatim>\<open>s.partition(sep)[0]\<close> and \<^verbatim>\<open>s.split(sep)[0]\<close> for a one-character separator: the text
  before its first occurrence, the whole text when it does not occur.\<close>

definition before_first :: "char \<Rightarrow> string \<Rightarrow> string" where
  "before_first sep s = takeWhile (\<lambda>c. c \<noteq> sep) s"

text \<open>\<^verbatim>\<open>sep.join(xs)\<close>.\<close>

fun join :: "string \<Rightarrow> string list \<Rightarrow> string" where
  "join sep [] = []"
| "join sep [x] = x"
| "join sep (x # y # ys) = x @ sep @ join sep (y # ys)"

text \<open>\<^verbatim>\<open>str(n)\<close> for an integer: decimal digits, with a minus sign when negative.\<close>

definition digit_char :: "nat \<Rightarrow> char" where
  "digit_char d = ''0123456789'' ! d"

fun str_nat :: "nat \<Rightarrow> string" where
  "str_nat n = (if n < 10 then [digit_char n] else str_nat (n div 10) @ [digit_char (n mod 10)])"

declare str_nat.simps [simp del]

definition str_int :: "int \<Rightarrow> string" where
  "str_int i = (if i < 0 then CHR ''-'' # str_nat (nat (- i)) else str_nat (nat i))"

text \<open>A Python \<^verbatim>\<open>dict\<close> keeps its keys in insertion order; assigning to a key that is present
  replaces the value in place, a new key goes last. That is \<open>AList.update\<close>.
  \<open>dict_update d e\<close> is \<^verbatim>\<open>d.update(e)\<close>, \<open>dict_of\<close> a dict comprehension over pairs.\<close>

definition dict_update :: "('k \<times> 'v) list \<Rightarrow> ('k \<times> 'v) list \<Rightarrow> ('k \<times> 'v) list" where
  "dict_update d e = foldl (\<lambda>acc kv. AList.update (fst kv) (snd kv) acc) d e"

definition dict_of :: "('k \<times> 'v) list \<Rightarrow> ('k \<times> 'v) list" where
  "dict_of kvs = dict_update [] kvs"

definition keys :: "('k \<times> 'v) list \<Rightarrow> 'k list" where
  "keys d = map fst d"

section \<open>The specification objects and the transport's response\<close>

text \<open>A schema: the truth value of its \<^verbatim>\<open>required\<close> attribute and its \<^verbatim>\<open>model\<close> constructor
  (the data-model layer, which validates a parsed value and may raise).\<close>

record schema =
  sch_required :: bool
  sch_model :: "pyvalue \<Rightarrow> error + pyvalue"

record parameter =
  par_name :: string
  par_in :: string
  par_required :: bool
  par_schema :: schema

record security_requirement =
  sr_name :: string
  sr_types :: "string list"

text \<open>A security scheme; \<open>ss_scheme\<close> and \<open>ss_bearerFormat\<close> are read by paths.py only.\<close>

record security_scheme =
  ss_type :: string
  ss_scheme :: "string option"
  ss_bearerFormat :: "string option"
  ss_in :: "string option"
  ss_name :: string

text \<open>The response objects: a Swagger 2.0 response carries its schema, an OpenAPI 3.0
  response a \<^verbatim>\<open>content\<close> dict from media type to a media-type object. In paths.py the
  \<^verbatim>\<open>content\<close> of a response and the \<^verbatim>\<open>schema\<close> of a media type are optional fields, \<^verbatim>\<open>None\<close> when
  the document leaves them out.\<close>

record response_v20 =
  rs_schema :: schema

record media_type =
  mt_schema :: "schema option"

record response_v30 =
  rs_content :: "(string \<times> media_type) list option"

text \<open>What the transport returns. The header container of httpx and of requests is
  case-insensitive: it is a map from the lower-cased header name.\<close>

record envelope =
  status_code :: int
  env_headers :: "string \<rightharpoonup> string"
  env_text :: string

definition headers_get :: "(string \<rightharpoonup> string) \<Rightarrow> string \<Rightarrow> string option" where
  "headers_get h k = h (str_lower k)"

text \<open>The message plugins of glue.py, each called with the operationId and the value.\<close>

record message_plugins =
  marshalled :: "string \<Rightarrow> pyvalue \<Rightarrow> error + pyvalue"
  sending :: "string \<Rightarrow> string \<Rightarrow> error + string"
  received :: "string \<Rightarrow> string \<Rightarrow> error + string"
  parsed :: "string \<Rightarrow> pyvalue \<Rightarrow> error + pyvalue"
  unmarshalled :: "string \<Rightarrow> pyvalue \<Rightarrow> error + pyvalue"

section \<open>Response processing\<close>

text \<open>Lines 162-166 of glue.py and 251-254 of paths.py: the status code's own entry,
  else the \<^verbatim>\<open>default\<close> entry, else nothing.\<close>

definition expected_response :: "(string \<times> 'r) list \<Rightarrow> string \<Rightarrow> 'r option" where
  "expected_response responses sc =
     (case map_of responses sc of
        Some r \<Rightarrow> Some r
      | None \<Rightarrow> map_of responses ''default'')"

text \<open>glue.py, lines 180-191: the body is decoded when the content type, lower-cased and cut
  at the first semicolon, is \<^verbatim>\<open>application/json\<close>. \<open>json_loads\<close> is \<^verbatim>\<open>json.loads\<close>.\<close>

definition decode_v20 ::
  "message_plugins \<Rightarrow> (string \<Rightarrow> error + pyvalue) \<Rightarrow> string \<Rightarrow> response_v20 \<Rightarrow>
   string \<Rightarrow> string \<Rightarrow> error + pyvalue" where
  "decode_v20 pl json_loads opid er content_type body =
     (if before_first CHR '';'' (str_lower content_type) = ''application/json'' then
        and_then (received pl opid body) (\<lambda>d.
        and_then (json_loads d) (\<lambda>d.
        and_then (parsed pl opid d) (\<lambda>d.
        and_then (sch_model (rs_schema er) d) (\<lambda>d.
        unmarshalled pl opid d))))
      else Inl (NotImplementedError content_type))"

text \<open>glue.py, lines 175-191: what \<^verbatim>\<open>_process\<close> does once the response object is found.
  A 204 returns \<^verbatim>\<open>None\<close>. \<^verbatim>\<open>headers.get("Content-Type", None)\<close> yields \<^verbatim>\<open>None\<close> for an absent
  header, and \<^verbatim>\<open>None.lower()\<close> raises AttributeError.\<close>

definition process_matched ::
  "message_plugins \<Rightarrow> (string \<Rightarrow> error + pyvalue) \<Rightarrow> string \<Rightarrow> response_v20 \<Rightarrow>
   envelope \<Rightarrow> error + pyvalue" where
  "process_matched pl json_loads opid er result =
     (if str_int (status_code result) = ''204'' then Inr PyNone
      else (case headers_get (env_headers result) ''Content-Type'' of
              None \<Rightarrow> Inl (AttributeError ''NoneType object has no attribute lower'')
            | Some content_type \<Rightarrow>
                decode_v20 pl json_loads opid er content_type (env_text result)))"

text \<open>\<^verbatim>\<open>Request._process\<close> of glue.py (lines 157-191).\<close>

definition process ::
  "message_plugins \<Rightarrow> (string \<Rightarrow> error + pyvalue) \<Rightarrow> string \<Rightarrow>
   (string \<times> response_v20) list \<Rightarrow> envelope \<Rightarrow> error + pyvalue" where
  "process pl json_loads opid responses result =
     (case expected_response responses (str_int (status_code result)) of
        None \<Rightarrow>
          Inl (ValueError (''Unexpected response '' @ str_int (status_code result) @ '' from '' @ opid
                 @ '' (expected one of '' @ join '','' (keys responses)
                 @ ''), no default is defined''))
      | Some er \<Rightarrow> process_matched pl json_loads opid er result)"

text \<open>paths.py, lines 263-271: the media-type object for the received content type, looked
  up as received, else under \<^verbatim>\<open>type/*\<close> when the content type holds a slash.\<close>

definition expected_media :: "(string \<times> 'm) list \<Rightarrow> string \<Rightarrow> 'm option" where
  "expected_media content content_type =
     (case map_of content content_type of
        Some m \<Rightarrow> Some m
      | None \<Rightarrow>
          if CHR ''/'' \<in> set content_type
          then map_of content (before_first CHR ''/'' content_type @ ''/*'')
          else None)"

text \<open>paths.py, lines 279-284: only \<^verbatim>\<open>application/json\<close>, compared as received but for case, is
  decoded; \<^verbatim>\<open>result.json()\<close> is \<open>json_loads\<close> of the body. The attribute \<^verbatim>\<open>schema.model\<close> is looked
  up before the body is parsed.\<close>

definition decode_v30 ::
  "(string \<Rightarrow> error + pyvalue) \<Rightarrow> media_type \<Rightarrow> string \<Rightarrow> string \<Rightarrow> error + pyvalue" where
  "decode_v30 json_loads em content_type body =
     (if str_lower content_type = ''application/json''
      then (case mt_schema em of
              None \<Rightarrow> Inl (AttributeError ''NoneType object has no attribute model'')
            | Some sch \<Rightarrow> and_then (json_loads body) (sch_model sch))
      else Inl (NotImplementedError []))"

text \<open>paths.py, lines 262-284. \<^verbatim>\<open>result.headers['Content-Type']\<close> raises KeyError when the
  header is absent.\<close>

definition request_matched ::
  "(string \<Rightarrow> error + pyvalue) \<Rightarrow> string \<Rightarrow> response_v30 \<Rightarrow> envelope \<Rightarrow> error + pyvalue" where
  "request_matched json_loads opid er result =
     (case headers_get (env_headers result) ''Content-Type'' of
        None \<Rightarrow> Inl (KeyError ''content-type'')
      | Some content_type \<Rightarrow>
          (case rs_content er of
             None \<Rightarrow> Inl (AttributeError ''NoneType object has no attribute get'')
           | Some content \<Rightarrow>
               (case expected_media content content_type of
                  None \<Rightarrow>
                    Inl (RuntimeError (''Unexpected content type '' @ content_type
                           @ '' returned for operation '' @ opid
                           @ '' (expected one of '' @ join '','' (keys content) @ '')''))
                | Some em \<Rightarrow> decode_v30 json_loads em content_type (env_text result))))"

text \<open>Lines 246-284 of \<^verbatim>\<open>Operation.request\<close> in paths.py: what is done with the transport's
  result.\<close>

definition request_result ::
  "(string \<Rightarrow> error + pyvalue) \<Rightarrow> string \<Rightarrow> (string \<times> response_v30) list \<Rightarrow>
   envelope \<Rightarrow> error + pyvalue" where
  "request_result json_loads opid responses result =
     (case expected_response responses (str_int (status_code result)) of
        None \<Rightarrow>
          Inl (RuntimeError (''Unexpected response '' @ str_int (status_code result) @ '' from '' @ opid
                 @ '' (expected one of '' @ join '','' (keys responses)
                 @ '', no default is defined)''))
      | Some er \<Rightarrow> request_matched json_loads opid er result)"

text \<open>Plugins that leave every message as it is, and plugins that raise whenever called.\<close>

definition identity_plugins :: message_plugins where
  "identity_plugins =
     \<lparr>marshalled = (\<lambda>_. Inr), sending = (\<lambda>_. Inr), received = (\<lambda>_. Inr),
      parsed = (\<lambda>_. Inr), unmarshalled = (\<lambda>_. Inr)\<rparr>"

definition raising_plugins :: message_plugins where
  "raising_plugins =
     \<lparr>marshalled = (\<lambda>_ _. Inl (RuntimeError ''marshalled'')),
      sending = (\<lambda>_ _. Inl (RuntimeError ''sending'')),
      received = (\<lambda>_ _. Inl (RuntimeError ''received'')),
      parsed = (\<lambda>_ _. Inl (RuntimeError ''parsed'')),
      unmarshalled = (\<lambda>_ _. Inl (RuntimeError ''unmarshalled''))\<rparr>"

text \<open>A schema whose model constructor accepts every value unchanged.\<close>

definition plain_schema :: schema where
  "plain_schema = \<lparr>sch_required = False, sch_model = Inr\<rparr>"



section \<open>\<^verbatim>\<open>str.format\<close>\<close>

text \<open>
  \<^verbatim>\<open>template.format(*args, **kwargs)\<close> reads the template from left to right. What is spelled
  out here is the part of it that a path template uses: text without braces is copied,
  \<^verbatim>\<open>{{\<close> and \<^verbatim>\<open>}}\<close> give one brace, and a plain keyword field \<^verbatim>\<open>{name}\<close> is replaced by the
  formatted keyword argument of that name, or raises KeyError of the name when there is
  none. A plain keyword name is not empty, is not a number, and holds none of the
  characters \<^verbatim>\<open>{ } ! : . [\<close> and no character outside ASCII.

  Everything else is Python's own business and enters as the two functions of a
  \<open>formatter\<close>: \<open>value_text\<close> is \<^verbatim>\<open>format(value, '')\<close>, the text put in place of a plain field (for a
  \<^verbatim>\<open>str\<close> the string itself); \<open>format_rest\<close> is \<^verbatim>\<open>str.format\<close> on the rest of a template that
  begins with anything else: a positional field, a field with a conversion, a format
  specification, an attribute or an index, or a brace that opens or closes nothing. Up to
  that point no positional field has been read, so the rest is formatted as a template of
  its own.
\<close>

record formatter =
  value_text :: "pyvalue \<Rightarrow> string"
  format_rest :: "string \<Rightarrow> pyvalue list \<Rightarrow> (string \<times> pyvalue) list \<Rightarrow> error + string"

definition is_digit :: "char \<Rightarrow> bool" where
  "is_digit c = (c \<in> set ''0123456789'')"

definition name_char :: "char \<Rightarrow> bool" where
  "name_char c = (c \<notin> set ''{}!:.['' \<and> \<not> digit7 c)"

definition plain_name :: "string \<Rightarrow> bool" where
  "plain_name n = (n \<noteq> [] \<and> list_all name_char n \<and> \<not> list_all is_digit n)"

text \<open>\<open>format_text\<close> formats a template; \<open>format_field\<close> reads a field whose opening brace stood at
  the head of \<open>whole\<close>, with \<open>name\<close> the part of its name that has been read.\<close>

fun format_text ::
  "formatter \<Rightarrow> pyvalue list \<Rightarrow> (string \<times> pyvalue) list \<Rightarrow> string \<Rightarrow> error + string"
and format_field ::
  "formatter \<Rightarrow> pyvalue list \<Rightarrow> (string \<times> pyvalue) list \<Rightarrow> string \<Rightarrow> string \<Rightarrow> string \<Rightarrow>
   error + string" where
  "format_text fmt args kwargs [] = Inr []"
| "format_text fmt args kwargs (c # r) =
     (if c = CHR ''{'' then
        (case r of
           [] \<Rightarrow> format_rest fmt (c # r) args kwargs
         | d # r' \<Rightarrow>
             if d = CHR ''{''
             then and_then (format_text fmt args kwargs r') (\<lambda>s. Inr (CHR ''{'' # s))
             else format_field fmt args kwargs (c # r) [] r)
      else if c = CHR ''}'' then
        (case r of
           [] \<Rightarrow> format_rest fmt (c # r) args kwargs
         | d # r' \<Rightarrow>
             if d = CHR ''}''
             then and_then (format_text fmt args kwargs r') (\<lambda>s. Inr (CHR ''}'' # s))
             else format_rest fmt (c # r) args kwargs)
      else and_then (format_text fmt args kwargs r) (\<lambda>s. Inr (c # s)))"
| "format_field fmt args kwargs whole name [] = format_rest fmt whole args kwargs"
| "format_field fmt args kwargs whole name (c # r) =
     (if c = CHR ''}'' then
        (if plain_name name then
           (case map_of kwargs name of
              None \<Rightarrow> Inl (KeyError name)
            | Some v \<Rightarrow>
                and_then (format_text fmt args kwargs r) (\<lambda>s. Inr (value_text fmt v @ s)))
         else format_rest fmt whole args kwargs)
      else if name_char c then format_field fmt args kwargs whole (name @ [c]) r
      else format_rest fmt whole args kwargs)"

definition str_format ::
  "formatter \<Rightarrow> string \<Rightarrow> pyvalue list \<Rightarrow> (string \<times> pyvalue) list \<Rightarrow> error + string" where
  "str_format fmt template args kwargs = format_text fmt args kwargs template"

text \<open>\<^verbatim>\<open>format(value, '')\<close> of the scalars: a \<^verbatim>\<open>str\<close> is itself, an \<^verbatim>\<open>int\<close> its decimal digits. The
  text of a container or a model is left open.\<close>

fun scalar_text :: "pyvalue \<Rightarrow> string" where
  "scalar_text (PyStr s) = s"
| "scalar_text (PyInt i) = str_int i"
| "scalar_text (PyBool b) = (if b then ''True'' else ''False'')"
| "scalar_text PyNone = ''None''"

text \<open>A formatter for plain templates and scalar values; what Python makes of any other
  template is left open.\<close>

definition plain_formatter :: formatter where
  "plain_formatter = \<lparr>value_text = scalar_text, format_rest = undefined\<rparr>"

section \<open>Request preparation in glue.py\<close>

text \<open>\<^verbatim>\<open>self.req\<close>: the request being assembled. \<^verbatim>\<open>params\<close>, \<^verbatim>\<open>headers\<close> and \<^verbatim>\<open>cookies\<close> are dicts.\<close>

record req =
  req_url :: string
  req_params :: "(string \<times> pyvalue) list"
  req_headers :: "(string \<times> pyvalue) list"
  req_cookies :: "(string \<times> pyvalue) list"
  req_auth :: "pyvalue option"
  req_content :: "string option"

text \<open>Lines 40-43: the requirements the credentials are matched against. \<open>op_security\<close> is
  \<^verbatim>\<open>self.operation.security\<close> (\<open>None\<close> when the operation declares none), \<open>root_security\<close> is
  \<^verbatim>\<open>self.root.security\<close>.\<close>

definition security_alternatives ::
  "security_requirement list option \<Rightarrow> security_requirement list \<Rightarrow> security_requirement list" where
  "security_alternatives op_security root_security =
     (if op_security = Some [] then []
      else (case op_security of None \<Rightarrow> [] | Some l \<Rightarrow> l) @ root_security)"

text \<open>The nested loops of lines 46-52 (and 152-161 of paths.py): the credentials are tried
  in the order of the dict; the first scheme name that some requirement carries wins, with
  the first requirement of that name.\<close>

fun match_credentials ::
  "(string \<times> pyvalue) list \<Rightarrow> security_requirement list \<Rightarrow>
   (security_requirement \<times> pyvalue) option" where
  "match_credentials [] security = None"
| "match_credentials (sv # rest) security =
     (case find (\<lambda>x. sr_name x = fst sv) security of
        Some r \<Rightarrow> Some (r, snd sv)
      | None \<Rightarrow> match_credentials rest security)"

text \<open>\<^verbatim>\<open>Request._prepare_secschemes\<close>. \<open>defs\<close> is \<^verbatim>\<open>self.root.securityDefinitions\<close>.\<close>

definition prepare_secschemes ::
  "(string \<times> security_scheme) list \<Rightarrow> security_requirement \<Rightarrow> pyvalue \<Rightarrow> req \<Rightarrow> error + req" where
  "prepare_secschemes defs security_requirement v rq =
     (case map_of defs (sr_name security_requirement) of
        None \<Rightarrow> Inl (KeyError (sr_name security_requirement))
      | Some ss \<Rightarrow>
          (let r1 = (if ss_type ss = ''basic'' then rq\<lparr>req_auth := Some v\<rparr> else rq);
               r2 = (if ss_type ss = ''apiKey'' \<and> ss_in ss = Some ''query''
                     then r1\<lparr>req_params := AList.update (ss_name ss) v (req_params r1)\<rparr> else r1);
               r3 = (if ss_type ss = ''apiKey'' \<and> ss_in ss = Some ''header''
                     then r2\<lparr>req_headers := AList.update (ss_name ss) v (req_headers r2)\<rparr> else r2);
               r4 = (if ss_type ss = ''apiKey'' \<and> ss_in ss = Some ''cookie''
                     then r3\<lparr>req_cookies := [(ss_name ss, v)]\<rparr> else r3)
           in Inr r4))"

text \<open>\<^verbatim>\<open>Request._prepare_security\<close>. \<open>credentials\<close> is \<^verbatim>\<open>self.security\<close>, the caller's dict from
  scheme name to value (an empty dict and \<^verbatim>\<open>None\<close> are both false). When no credential
  matches, line 55 builds the message with \<^verbatim>\<open>self.operation.security.keys()\<close>; the operation's
  security is a list or \<^verbatim>\<open>None\<close>, neither has \<^verbatim>\<open>keys\<close>, so what is raised is the
  AttributeError of that call, not the ValueError.\<close>

definition prepare_security ::
  "(string \<times> pyvalue) list \<Rightarrow> security_requirement list option \<Rightarrow> security_requirement list \<Rightarrow>
   (string \<times> security_scheme) list \<Rightarrow> req \<Rightarrow> error + req" where
  "prepare_security credentials op_security root_security defs rq =
     (let security = security_alternatives op_security root_security in
      if credentials \<noteq> [] \<and> security \<noteq> [] then
        (case match_credentials credentials security of
           Some rv \<Rightarrow> prepare_secschemes defs (fst rv) (snd rv) rq
         | None \<Rightarrow>
             Inl (AttributeError
                    (if op_security = None then ''NoneType object has no attribute keys''
                     else ''list object has no attribute keys'')))
      else Inr rq)"

text \<open>Lines 83-87: the accepted parameters by name, from the operation's parameters
  followed by the path's, the body parameters left out.\<close>

definition accepted_parameters ::
  "parameter list \<Rightarrow> parameter list \<Rightarrow> (string \<times> parameter) list" where
  "accepted_parameters op_parameters path_parameters =
     dict_of (map (\<lambda>p. (par_name p, p))
       (filter (\<lambda>x. par_in x \<noteq> ''body'') (op_parameters @ path_parameters)))"

text \<open>Lines 89-110: the loop over the accepted parameters. The state is the dict of path
  values collected so far and the request. \<open>parameters\<close> is the caller's dict, or \<open>None\<close>.\<close>

fun bind_parameters ::
  "(string \<times> pyvalue) list option \<Rightarrow> (string \<times> parameter) list \<Rightarrow>
   (string \<times> pyvalue) list \<times> req \<Rightarrow> error + ((string \<times> pyvalue) list \<times> req)" where
  "bind_parameters parameters [] st = Inr st"
| "bind_parameters parameters (ns # rest) st =
     (case (case parameters of None \<Rightarrow> None | Some d \<Rightarrow> map_of d (fst ns)) of
        None \<Rightarrow>
          if par_required (snd ns)
          then Inl (ValueError (''Required parameter '' @ fst ns @ '' not provided''))
          else bind_parameters parameters rest st
      | Some v \<Rightarrow>
          (let pp = (if par_in (snd ns) = ''path'' then AList.update (fst ns) v (fst st) else fst st);
               r1 = (if par_in (snd ns) = ''query''
                     then (snd st)\<lparr>req_params := AList.update (fst ns) v (req_params (snd st))\<rparr>
                     else snd st);
               r2 = (if par_in (snd ns) = ''header''
                     then r1\<lparr>req_headers := AList.update (fst ns) v (req_headers r1)\<rparr> else r1);
               r3 = (if par_in (snd ns) = ''cookie''
                     then r2\<lparr>req_cookies := AList.update (fst ns) v (req_cookies r2)\<rparr> else r2)
           in bind_parameters parameters rest (pp, r3)))"

text \<open>\<^verbatim>\<open>Request._prepare_parameters\<close>: the loop, then one \<^verbatim>\<open>format\<close> of the url with all the
  path values (line 112).\<close>

definition prepare_parameters ::
  "formatter \<Rightarrow> parameter list \<Rightarrow> parameter list \<Rightarrow>
   (string \<times> pyvalue) list option \<Rightarrow> req \<Rightarrow> error + req" where
  "prepare_parameters fmt op_parameters path_parameters parameters rq =
     and_then
       (bind_parameters parameters (accepted_parameters op_parameters path_parameters) ([], rq))
       (\<lambda>st. and_then (str_format fmt (req_url (snd st)) [] (fst st))
                (\<lambda>u. Inr ((snd st)\<lparr>req_url := u\<rparr>)))"

text \<open>\<^verbatim>\<open>data.dict()\<close> of a model instance: its fields as a dict, models inside converted too.\<close>

primrec plain_value :: "pyvalue \<Rightarrow> pyvalue" where
  "plain_value PyNone = PyNone"
| "plain_value (PyBool b) = PyBool b"
| "plain_value (PyInt i) = PyInt i"
| "plain_value (PyStr s) = PyStr s"
| "plain_value (PyTuple xs) = PyTuple (map plain_value xs)"
| "plain_value (PyList xs) = PyList (map plain_value xs)"
| "plain_value (PyDict kvs) = PyDict (map (map_prod id plain_value) kvs)"
| "plain_value (PyModel fs) = PyDict (map (map_prod id plain_value) fs)"

text \<open>The property \<^verbatim>\<open>Request.data\<close>: the schema of the first body parameter of the operation;
  \<open>None\<close> stands for its ValueError.\<close>

definition body_schema :: "parameter list \<Rightarrow> schema option" where
  "body_schema op_parameters =
     (case filter (\<lambda>x. par_in x = ''body'') op_parameters of
        [] \<Rightarrow> None
      | i # _ \<Rightarrow> Some (par_schema i))"

text \<open>\<^verbatim>\<open>Request._prepare_body\<close>. \<open>consumes\<close> is \<^verbatim>\<open>self.operation.consumes\<close>, \<open>json_dumps\<close> is
  \<^verbatim>\<open>json.dumps\<close>, whose output is ASCII, so that \<^verbatim>\<open>encode()\<close> yields the same characters as
  bytes. A caller who passes no data passes \<open>PyNone\<close>.\<close>

definition prepare_body ::
  "message_plugins \<Rightarrow> (pyvalue \<Rightarrow> error + string) \<Rightarrow> string \<Rightarrow> parameter list \<Rightarrow> string list \<Rightarrow>
   pyvalue \<Rightarrow> req \<Rightarrow> error + req" where
  "prepare_body pl json_dumps opid op_parameters consumes data rq =
     (case body_schema op_parameters of
        None \<Rightarrow> Inr rq
      | Some sch \<Rightarrow>
          if data = PyNone \<and> sch_required sch
          then Inl (ValueError ''Request Body is required but none was provided.'')
          else if ''application/json'' \<in> set consumes then
            and_then
              (case data of
                 PyDict kvs \<Rightarrow> Inr data
               | PyList xs \<Rightarrow> Inr data
               | PyModel fs \<Rightarrow> Inr (plain_value data)
               | _ \<Rightarrow> Inl (TypeError data))
              (\<lambda>d. and_then (marshalled pl opid d)
              (\<lambda>d. and_then (json_dumps d)
              (\<lambda>d. and_then (sending pl opid d)
              (\<lambda>d. Inr (rq\<lparr>req_content := Some d,
                          req_headers :=
                            AList.update ''Content-Type'' (PyStr ''application/json'')
                              (req_headers rq)\<rparr>)))))
          else Inl (NotImplementedError []))"

text \<open>\<^verbatim>\<open>Request._prepare\<close>: security, then parameters, then body.\<close>

definition prepare ::
  "message_plugins \<Rightarrow> (pyvalue \<Rightarrow> error + string) \<Rightarrow> formatter \<Rightarrow> string \<Rightarrow>
   (string \<times> pyvalue) list \<Rightarrow> security_requirement list option \<Rightarrow> security_requirement list \<Rightarrow>
   (string \<times> security_scheme) list \<Rightarrow> parameter list \<Rightarrow> parameter list \<Rightarrow> string list \<Rightarrow>
   pyvalue \<Rightarrow> (string \<times> pyvalue) list option \<Rightarrow> req \<Rightarrow> error + req" where
  "prepare pl json_dumps fmt opid credentials op_security root_security defs op_parameters
     path_parameters consumes data parameters rq =
     and_then (prepare_security credentials op_security root_security defs rq)
       (\<lambda>r. and_then (prepare_parameters fmt op_parameters path_parameters parameters r)
       (\<lambda>r. prepare_body pl json_dumps opid op_parameters consumes data r))"

section \<open>\<^verbatim>\<open>Operation.request\<close> in paths.py\<close>

text \<open>The local variables of \<^verbatim>\<open>request\<close> that make up the call handed to \<^verbatim>\<open>requests\<close>.\<close>

datatype auth = HTTPBasicAuth pyvalue pyvalue | HTTPDigestAuth pyvalue pyvalue

record request_locals =
  rq_body :: "string option"
  rq_headers :: "(string \<times> pyvalue) list"
  rq_path :: string
  rq_query_params :: "(string \<times> pyvalue) list"
  rq_auth :: "auth option"
  rq_cert :: "pyvalue option"

record request_body =
  rb_required :: bool
  rb_content :: "(string \<times> media_type) list"

text \<open>\<^verbatim>\<open>f(*value)\<close> for a constructor of two arguments: the value is iterated and must yield
  exactly two items; anything else is a TypeError.\<close>

fun unpack_two :: "pyvalue \<Rightarrow> error + (pyvalue \<times> pyvalue)" where
  "unpack_two (PyTuple [a, b]) = Inr (a, b)"
| "unpack_two (PyList [a, b]) = Inr (a, b)"
| "unpack_two (PyStr [c, d]) = Inr (PyStr [c], PyStr [d])"
| "unpack_two (PyDict [kv, kv']) = Inr (PyStr (fst kv), PyStr (fst kv'))"
| "unpack_two (PyModel [kv, kv']) =
     Inr (PyTuple [PyStr (fst kv), snd kv], PyTuple [PyStr (fst kv'), snd kv'])"
| "unpack_two v = Inl (TypeError v)"

text \<open>Lines 167-196: the matched scheme is applied to the call. \<open>schemes\<close> is
  \<^verbatim>\<open>self._root.components.securitySchemes\<close>.\<close>

definition apply_scheme ::
  "formatter \<Rightarrow> (string \<times> security_scheme) list \<Rightarrow> security_requirement \<Rightarrow> pyvalue \<Rightarrow>
   request_locals \<Rightarrow> error + request_locals" where
  "apply_scheme fmt schemes security_requirement v lc =
     (case map_of schemes (sr_name security_requirement) of
        None \<Rightarrow> Inl (KeyError (sr_name security_requirement))
      | Some ss \<Rightarrow>
          and_then
            (if ss_type ss = ''http'' then
               and_then
                 (if ss_scheme ss = Some ''basic''
                  then and_then (unpack_two v) (\<lambda>ab. Inr (lc\<lparr>rq_auth := Some (HTTPBasicAuth (fst ab) (snd ab))\<rparr>))
                  else Inr lc)
               (\<lambda>l1. and_then
                 (if ss_scheme ss = Some ''bearer''
                  then and_then
                    (str_format fmt
                       (case ss_bearerFormat ss of
                          None \<Rightarrow> ''Bearer {}''
                        | Some f \<Rightarrow> if f = [] then ''Bearer {}'' else f)
                       [v] [])
                    (\<lambda>h. Inr (l1\<lparr>rq_headers := AList.update ''Authorization'' (PyStr h) (rq_headers l1)\<rparr>))
                  else Inr l1)
               (\<lambda>l2. and_then
                 (if ss_scheme ss = Some ''digest''
                  then and_then (unpack_two v) (\<lambda>ab. Inr (l2\<lparr>rq_auth := Some (HTTPDigestAuth (fst ab) (snd ab))\<rparr>))
                  else Inr l2)
               (\<lambda>l3.
                 (let l4 = (if ss_scheme ss = Some ''mutualTLS'' then l3\<lparr>rq_cert := Some v\<rparr> else l3)
                  in if ss_scheme ss \<notin> {Some ''basic'', Some ''bearer'', Some ''digest'', Some ''mutualTLS''}
                     then Inl (NotImplementedError [])
                     else Inr l4))))
             else Inr lc)
            (\<lambda>l5.
               (let l6 = (if ss_type ss = ''apiKey'' \<and> ss_in ss = Some ''query''
                          then l5\<lparr>rq_query_params := AList.update (ss_name ss) v (rq_query_params l5)\<rparr>
                          else l5);
                    l7 = (if ss_type ss = ''apiKey'' \<and> ss_in ss = Some ''header''
                          then l6\<lparr>rq_headers := AList.update (ss_name ss) v (rq_headers l6)\<rparr>
                          else l6)
                in if ss_type ss \<in> {''oauth2'', ''openIdConnect''}
                   then Inl (NotImplementedError [])
                   else Inr l7)))"

text \<open>Lines 147-196. \<open>security\<close> is the caller's dict of credentials, \<open>op_security\<close> is
  \<^verbatim>\<open>self.security\<close>, a list (an operation that declares none gets the empty list when it
  is parsed, lines 116-117). As in glue.py, line 165 calls \<^verbatim>\<open>keys()\<close> on that list, so the
  failure to match raises AttributeError.\<close>

definition request_security ::
  "formatter \<Rightarrow> (string \<times> pyvalue) list \<Rightarrow> security_requirement list \<Rightarrow>
   (string \<times> security_scheme) list \<Rightarrow> request_locals \<Rightarrow> error + request_locals" where
  "request_security fmt security op_security schemes lc =
     (if security \<noteq> [] \<and> op_security \<noteq> [] then
        (case match_credentials security op_security of
           None \<Rightarrow> Inl (AttributeError ''list object has no attribute keys'')
         | Some rv \<Rightarrow> apply_scheme fmt schemes (fst rv) (snd rv) lc)
      else Inr lc)"

text \<open>Lines 198-211. \<open>json_dumps\<close> is \<^verbatim>\<open>json.dumps\<close>, \<open>json_dumps_default\<close> is \<^verbatim>\<open>json.dumps\<close> with
  the \<^verbatim>\<open>default=converter\<close> of line 207. Data that is neither a dict nor a model leaves
  \<^verbatim>\<open>body\<close> as it was, \<^verbatim>\<open>None\<close>: the \<^verbatim>\<open>if\<close>/\<^verbatim>\<open>elif\<close> of lines 203-208 has no \<^verbatim>\<open>else\<close>.\<close>

definition request_body_phase ::
  "(pyvalue \<Rightarrow> error + string) \<Rightarrow> (pyvalue \<Rightarrow> error + string) \<Rightarrow> request_body option \<Rightarrow>
   pyvalue \<Rightarrow> request_locals \<Rightarrow> error + request_locals" where
  "request_body_phase json_dumps json_dumps_default requestBody data lc =
     (case requestBody of
        None \<Rightarrow> Inr lc
      | Some rb \<Rightarrow>
          if rb_required rb \<and> data = PyNone
          then Inl (ValueError ''Request Body is required but none was provided.'')
          else if ''application/json'' \<in> set (keys (rb_content rb)) then
            and_then
              (case data of
                 PyDict kvs \<Rightarrow> and_then (json_dumps data) (\<lambda>b. Inr (lc\<lparr>rq_body := Some b\<rparr>))
               | PyModel fs \<Rightarrow>
                   and_then
                     (json_dumps_default (PyDict (dict_of (filter (\<lambda>kv. snd kv \<noteq> PyNone) fs))))
                     (\<lambda>b. Inr (lc\<lparr>rq_body := Some b\<rparr>))
               | _ \<Rightarrow> Inr lc)
              (\<lambda>l. Inr (l\<lparr>rq_headers :=
                           AList.update ''Content-Type'' (PyStr ''application/json'') (rq_headers l)\<rparr>))
          else Inl (NotImplementedError []))"

text \<open>Lines 214-217: the operation's parameters by name, updated with the path's.\<close>

definition accepted_parameters_v30 ::
  "parameter list \<Rightarrow> parameter list \<Rightarrow> (string \<times> parameter) list" where
  "accepted_parameters_v30 op_parameters path_parameters =
     dict_update (dict_of (map (\<lambda>p. (par_name p, p)) op_parameters))
       (dict_of (map (\<lambda>p. (par_name p, p)) path_parameters))"

text \<open>Lines 220-237: the loop over the accepted parameters; a path value is formatted into
  the path at once, by itself (line 231).\<close>

fun request_bind ::
  "formatter \<Rightarrow> (string \<times> pyvalue) list \<Rightarrow> (string \<times> parameter) list \<Rightarrow>
   request_locals \<Rightarrow> error + request_locals" where
  "request_bind fmt parameters [] lc = Inr lc"
| "request_bind fmt parameters (ns # rest) lc =
     (if par_required (snd ns) \<and> map_of parameters (fst ns) = None
      then Inl (ValueError (''Required parameter '' @ fst ns @ '' not provided''))
      else (case map_of parameters (fst ns) of
              None \<Rightarrow> request_bind fmt parameters rest lc
            | Some v \<Rightarrow>
                and_then
                  (if par_in (snd ns) = ''path''
                   then and_then (str_format fmt (rq_path lc) [] [(fst ns, v)])
                          (\<lambda>p. Inr (lc\<lparr>rq_path := p\<rparr>))
                   else if par_in (snd ns) = ''query''
                   then Inr (lc\<lparr>rq_query_params := AList.update (fst ns) v (rq_query_params lc)\<rparr>)
                   else if par_in (snd ns) = ''header''
                   then Inr (lc\<lparr>rq_headers := AList.update (fst ns) v (rq_headers lc)\<rparr>)
                   else if par_in (snd ns) = ''cookie''
                   then Inr (lc\<lparr>rq_headers := AList.update ''Cookie'' v (rq_headers lc)\<rparr>)
                   else Inr lc)
                  (\<lambda>l. request_bind fmt parameters rest l)))"

definition request_parameters ::
  "formatter \<Rightarrow> parameter list \<Rightarrow> parameter list \<Rightarrow> (string \<times> pyvalue) list \<Rightarrow>
   request_locals \<Rightarrow> error + request_locals" where
  "request_parameters fmt op_parameters path_parameters parameters lc =
     request_bind fmt parameters (accepted_parameters_v30 op_parameters path_parameters) lc"

text \<open>Lines 139-237: the call is assembled from empty headers and query parameters and the
  path template \<open>path\<close>, by the security, the body and the parameters, in this order.\<close>

definition request_prepare ::
  "formatter \<Rightarrow> (pyvalue \<Rightarrow> error + string) \<Rightarrow> (pyvalue \<Rightarrow> error + string) \<Rightarrow>
   string \<Rightarrow> security_requirement list \<Rightarrow> (string \<times> security_scheme) list \<Rightarrow>
   request_body option \<Rightarrow> parameter list \<Rightarrow> parameter list \<Rightarrow>
   (string \<times> pyvalue) list \<Rightarrow> pyvalue \<Rightarrow> (string \<times> pyvalue) list \<Rightarrow> error + request_locals" where
  "request_prepare fmt json_dumps json_dumps_default path op_security schemes requestBody
     op_parameters path_parameters security data parameters =
     and_then
       (request_security fmt security op_security schemes
          \<lparr>rq_body = None, rq_headers = [], rq_path = path, rq_query_params = [],
           rq_auth = None, rq_cert = None\<rparr>)
       (\<lambda>l. and_then (request_body_phase json_dumps json_dumps_default requestBody data l)
       (\<lambda>l. request_parameters fmt op_parameters path_parameters parameters l))"

text \<open>\<^verbatim>\<open>Operation.request\<close>: the call is assembled, sent (\<open>send\<close> is the method of \<^verbatim>\<open>requests\<close>,
  given the final url and the assembled call; \<open>urlencode\<close> is \<^verbatim>\<open>urllib.parse.urlencode\<close>), and
  the result examined.\<close>

definition request ::
  "formatter \<Rightarrow> (pyvalue \<Rightarrow> error + string) \<Rightarrow> (pyvalue \<Rightarrow> error + string) \<Rightarrow>
   (string \<Rightarrow> error + pyvalue) \<Rightarrow> ((string \<times> pyvalue) list \<Rightarrow> string) \<Rightarrow>
   (string \<Rightarrow> request_locals \<Rightarrow> error + envelope) \<Rightarrow>
   string \<Rightarrow> string \<Rightarrow> security_requirement list \<Rightarrow> (string \<times> security_scheme) list \<Rightarrow>
   request_body option \<Rightarrow> parameter list \<Rightarrow> parameter list \<Rightarrow> (string \<times> response_v30) list \<Rightarrow>
   string \<Rightarrow> (string \<times> pyvalue) list \<Rightarrow> pyvalue \<Rightarrow> (string \<times> pyvalue) list \<Rightarrow> error + pyvalue" where
  "request fmt json_dumps json_dumps_default json_loads urlencode send opid path op_security
     schemes requestBody op_parameters path_parameters responses base_url security data parameters =
     and_then
       (request_prepare fmt json_dumps json_dumps_default path op_security schemes requestBody
          op_parameters path_parameters security data parameters)
       (\<lambda>l. and_then (send (base_url @ rq_path l @ ''?'' @ urlencode (rq_query_params l)) l)
       (\<lambda>result. request_result json_loads opid responses result))"

section \<open>Notions used to state the properties\<close>

text \<open>The value the caller supplies for a parameter name, if any: \<^verbatim>\<open>parameters\<close> is a dict or
  \<^verbatim>\<open>None\<close>.\<close>

definition caller_value :: "(string \<times> pyvalue) list option \<Rightarrow> string \<Rightarrow> pyvalue option" where
  "caller_value parameters n = (case parameters of None \<Rightarrow> None | Some d \<Rightarrow> map_of d n)"

text \<open>A structured value is a dict or a list. The JSON codec is the standard library's, not
  this program's, and enters as \<open>json_dumps\<close> and \<open>json_loads\<close>; a value is JSON-representable
  for them when serialising it succeeds and parsing the text gives the value back.\<close>

fun is_structured :: "pyvalue \<Rightarrow> bool" where
  "is_structured (PyDict kvs) = True"
| "is_structured (PyList xs) = True"
| "is_structured v = False"


text \<open>No brace in a text.\<close>

definition brace_free :: "string \<Rightarrow> bool" where
  "brace_free s = (CHR ''{'' \<notin> set s \<and> CHR ''}'' \<notin> set s)"

text \<open>A plain path template: literal text without braces and placeholders \<^verbatim>\<open>{name}\<close> whose
  name is a plain keyword name. \<open>template_of\<close> is its text, \<open>render\<close> the text with every
  placeholder replaced by the formatted value of its name.\<close>

datatype segment = Literal string | Placeholder string

fun segment_text :: "segment \<Rightarrow> string" where
  "segment_text (Literal s) = s"
| "segment_text (Placeholder n) = ''{'' @ n @ ''}''"

definition template_of :: "segment list \<Rightarrow> string" where
  "template_of segs = concat (map segment_text segs)"

fun plain_segment :: "segment \<Rightarrow> bool" where
  "plain_segment (Literal s) = brace_free s"
| "plain_segment (Placeholder n) = plain_name n"

fun placeholders :: "segment list \<Rightarrow> string list" where
  "placeholders [] = []"
| "placeholders (Literal s # segs) = placeholders segs"
| "placeholders (Placeholder n # segs) = n # placeholders segs"

fun render :: "(pyvalue \<Rightarrow> string) \<Rightarrow> (string \<rightharpoonup> pyvalue) \<Rightarrow> segment list \<Rightarrow> string" where
  "render fmt m [] = []"
| "render fmt m (Literal s # segs) = s @ render fmt m segs"
| "render fmt m (Placeholder n # segs) =
     (case m n of None \<Rightarrow> [] | Some v \<Rightarrow> fmt v) @ render fmt m segs"

section \<open>Properties\<close>

subsection \<open>Decimal text of integers\<close>

lemma str_nat_length_ge2: "10 \<le> n \<Longrightarrow> 2 \<le> length (str_nat n)"
  by (subst str_nat.simps, simp, subst str_nat.simps, simp)

lemma lt10_cases: "(a::nat) < 10 \<Longrightarrow> a = 0 \<or> a = 1 \<or> a = 2 \<or> a = 3 \<or> a = 4 \<or> a = 5 \<or> a = 6 \<or> a = 7 \<or> a = 8 \<or> a = 9"
  by arith

lemma digit_char_0: "a < 10 \<Longrightarrow> digit_char a = CHR ''0'' \<Longrightarrow> a = 0"
  by (drule lt10_cases) (elim disjE; simp add: digit_char_def)

lemma digit_char_2: "a < 10 \<Longrightarrow> digit_char a = CHR ''2'' \<Longrightarrow> a = 2"
  by (drule lt10_cases) (elim disjE; simp add: digit_char_def)

lemma digit_char_4: "a < 10 \<Longrightarrow> digit_char a = CHR ''4'' \<Longrightarrow> a = 4"
  by (drule lt10_cases) (elim disjE; simp add: digit_char_def)

lemma str_nat_1: "str_nat n = [c] \<Longrightarrow> n < 10 \<and> digit_char n = c"
proof (cases "n < 10")
  case True
  assume "str_nat n = [c]"
  with True show ?thesis by (simp add: str_nat.simps)
next
  case False
  assume a: "str_nat n = [c]"
  from False have "2 \<le> length (str_nat n)" by (simp add: str_nat_length_ge2)
  with a show ?thesis by simp
qed

lemma str_nat_snoc:
  "str_nat n = xs @ [c] \<Longrightarrow> xs \<noteq> [] \<Longrightarrow>
   str_nat (n div 10) = xs \<and> digit_char (n mod 10) = c"
  by (subst (asm) str_nat.simps) (simp split: if_splits)

lemma arith_204: "(n::nat) mod 10 = 4 \<Longrightarrow> n div 10 mod 10 = 0 \<Longrightarrow> n div 10 div 10 = 2 \<Longrightarrow> n = 204"
proof -
  assume a: "n mod 10 = 4" and b: "n div 10 mod 10 = 0" and c: "n div 10 div 10 = 2"
  have "n div 10 = 10 * (n div 10 div 10) + n div 10 mod 10" by simp
  with b c have d: "n div 10 = 20" by simp
  have "n = 10 * (n div 10) + n mod 10" by simp
  with a d show ?thesis by simp
qed

lemma str_nat_204: "str_nat n = ''204'' \<Longrightarrow> n = 204"
proof -
  assume a: "str_nat n = ''204''"
  then have "str_nat n = ''20'' @ [CHR ''4'']" by simp
  then have 1: "str_nat (n div 10) = ''20'' \<and> digit_char (n mod 10) = CHR ''4''"
    by (rule str_nat_snoc) simp
  then have "str_nat (n div 10) = ''2'' @ [CHR ''0'']" by simp
  then have 2: "str_nat (n div 10 div 10) = ''2'' \<and> digit_char (n div 10 mod 10) = CHR ''0''"
    by (rule str_nat_snoc) simp
  then have 3: "n div 10 div 10 < 10 \<and> digit_char (n div 10 div 10) = CHR ''2''"
    using str_nat_1 by blast
  have "n mod 10 = 4" using 1 by (intro digit_char_4) simp_all
  moreover have "n div 10 mod 10 = 0" using 2 by (intro digit_char_0) simp_all
  moreover have "n div 10 div 10 = 2" using 3 by (intro digit_char_2) simp_all
  ultimately show "n = 204" by (rule arith_204)
qed

lemma str_int_204: "str_int i = ''204'' \<longleftrightarrow> i = 204"
proof
  assume a: "str_int i = ''204''"
  show "i = 204"
  proof (cases "i < 0")
    case True with a show ?thesis by (simp add: str_int_def)
  next
    case False
    with a have "str_nat (nat i) = ''204''" by (simp add: str_int_def)
    then have "nat i = 204" by (rule str_nat_204)
    with False show ?thesis by simp
  qed
next
  assume "i = 204"
  moreover have "str_int 204 = ''204''" by code_simp
  ultimately show "str_int i = ''204''" by simp
qed

lemma str_int_200: "str_int 200 = ''200''"
  by code_simp

lemma str_int_204_val: "str_int 204 = ''204''"
  by code_simp

lemma content_type_lower: "str_lower ''Content-Type'' = ''content-type''"
  by code_simp

subsection \<open>The response object for a status code\<close>

text \<open>C3. The response object that governs a received response is the entry whose key is the
  decimal text of the status code; when there is none, the entry under \<^verbatim>\<open>default\<close>; when
  there is neither, the call fails with an error whose message lists the declared status
  codes (a ValueError in glue.py, a RuntimeError in paths.py; the specification calls it
  UnexpectedStatus). Both binders, for every response and every dict of responses.\<close>

theorem status_lookup:
  "(case map_of rs20 (str_int (status_code result)) of
      Some er \<Rightarrow> process pl jl opid rs20 result = process_matched pl jl opid er result
    | None \<Rightarrow>
        (case map_of rs20 ''default'' of
           Some er \<Rightarrow> process pl jl opid rs20 result = process_matched pl jl opid er result
         | None \<Rightarrow>
             process pl jl opid rs20 result =
               Inl (ValueError (''Unexpected response '' @ str_int (status_code result) @ '' from ''
                      @ opid @ '' (expected one of '' @ join '','' (keys rs20)
                      @ ''), no default is defined''))))
   \<and>
   (case map_of rs30 (str_int (status_code result)) of
      Some er \<Rightarrow> request_result jl opid rs30 result = request_matched jl opid er result
    | None \<Rightarrow>
        (case map_of rs30 ''default'' of
           Some er \<Rightarrow> request_result jl opid rs30 result = request_matched jl opid er result
         | None \<Rightarrow>
             request_result jl opid rs30 result =
               Inl (RuntimeError (''Unexpected response '' @ str_int (status_code result) @ '' from ''
                      @ opid @ '' (expected one of '' @ join '','' (keys rs30)
                      @ '', no default is defined)''))))"
  by (simp add: process_def request_result_def expected_response_def split: option.split)

subsection \<open>The media type of a response\<close>

text \<open>C4, as amended. In paths.py, for a matched response object and a received Content-Type
  that carries no parameter (no semicolon), the media-type object is the entry under the
  received value; when there is none and the value holds a slash, the entry under
  \<^verbatim>\<open>type/*\<close> for the text before the first slash; when there is none either, the call fails
  with the RuntimeError that lists the declared media types. glue.py selects nothing by
  media type: for a status other than 204 the body is decoded with the schema of the
  matched response when the received value, lower-cased and cut at the first semicolon, is
  \<^verbatim>\<open>application/json\<close>, and NotImplementedError with the received value is raised otherwise.\<close>

theorem media_lookup:
  assumes "headers_get (env_headers result) ''Content-Type'' = Some ct"
    and "status_code result \<noteq> 204"
    and "rs_content er = Some content"
  shows "(CHR '';'' \<notin> set ct \<longrightarrow>
          request_matched jl opid er result =
           (case map_of content ct of
              Some em \<Rightarrow> decode_v30 jl em ct (env_text result)
            | None \<Rightarrow>
                (case (if CHR ''/'' \<in> set ct
                       then map_of content (before_first CHR ''/'' ct @ ''/*'')
                       else None) of
                   Some em \<Rightarrow> decode_v30 jl em ct (env_text result)
                 | None \<Rightarrow>
                     Inl (RuntimeError (''Unexpected content type '' @ ct
                            @ '' returned for operation '' @ opid
                            @ '' (expected one of '' @ join '','' (keys content) @ '')'')))))
       \<and> process_matched pl jl opid er20 result =
           (if before_first CHR '';'' (str_lower ct) = ''application/json''
            then decode_v20 pl jl opid er20 ct (env_text result)
            else Inl (NotImplementedError ct))"
  using assms
  by (simp add: request_matched_def expected_media_def process_matched_def decode_v20_def
      str_int_204 split: option.split)

theorem media_lookup_witness:
  "headers_get (env_headers \<lparr>status_code = 200, env_headers = [''content-type'' \<mapsto> ''text/plain''],
                  env_text = ''hello''\<rparr>) ''Content-Type'' = Some ''text/plain''
   \<and> CHR '';'' \<notin> set ''text/plain''
   \<and> status_code \<lparr>status_code = 200, env_headers = [''content-type'' \<mapsto> ''text/plain''],
                  env_text = ''hello''\<rparr> \<noteq> 204
   \<and> rs_content \<lparr>rs_content = Some [(''text/*'', \<lparr>mt_schema = Some plain_schema\<rparr>)]\<rparr>
       = Some [(''text/*'', \<lparr>mt_schema = Some plain_schema\<rparr>)]
   \<and> request_matched (\<lambda>_. Inr PyNone) ''getText''
         \<lparr>rs_content = Some [(''text/*'', \<lparr>mt_schema = Some plain_schema\<rparr>)]\<rparr>
         \<lparr>status_code = 200, env_headers = [''content-type'' \<mapsto> ''text/plain''],
          env_text = ''hello''\<rparr>
       = decode_v30 (\<lambda>_. Inr PyNone) \<lparr>mt_schema = Some plain_schema\<rparr> ''text/plain'' ''hello''
   \<and> before_first CHR '';'' (str_lower ''text/plain'') \<noteq> ''application/json''
   \<and> process_matched identity_plugins (\<lambda>_. Inr PyNone) ''getText'' \<lparr>rs_schema = plain_schema\<rparr>
         \<lparr>status_code = 200, env_headers = [''content-type'' \<mapsto> ''text/plain''],
          env_text = ''hello''\<rparr>
       = Inl (NotImplementedError ''text/plain'')"
  using media_lookup
    [of "\<lparr>status_code = 200, env_headers = [''content-type'' \<mapsto> ''text/plain''],
          env_text = ''hello''\<rparr>" "''text/plain''"
        "\<lparr>rs_content = Some [(''text/*'', \<lparr>mt_schema = Some plain_schema\<rparr>)]\<rparr>"
        "[(''text/*'', \<lparr>mt_schema = Some plain_schema\<rparr>)]"
        "\<lambda>_. Inr PyNone" "''getText''" identity_plugins "\<lparr>rs_schema = plain_schema\<rparr>"]
  by (simp add: headers_get_def content_type_lower before_first_def str_lower_def lower_char_def)

text \<open>C4 as stated fails: paths.py compares the received value as it is, so a charset parameter
  defeats the exact match, and glue.py raises NotImplementedError with the received type
  where the claim expects an error listing the declared media types.\<close>

theorem media_lookup_counterexample:
  "request_matched (\<lambda>_. Inr (PyDict [])) ''getPet''
     \<lparr>rs_content = Some [(''application/json'', \<lparr>mt_schema = Some plain_schema\<rparr>)]\<rparr>
     \<lparr>status_code = 200,
      env_headers = [''content-type'' \<mapsto> ''application/json; charset=utf-8''],
      env_text = ''{}''\<rparr>
   = Inl (RuntimeError
       ''Unexpected content type application/json; charset=utf-8 returned for operation getPet (expected one of application/json)'')
   \<and> process_matched identity_plugins (\<lambda>_. Inr (PyDict [])) ''getText''
     \<lparr>rs_schema = plain_schema\<rparr>
     \<lparr>status_code = 200, env_headers = [''content-type'' \<mapsto> ''text/plain''],
      env_text = ''hello''\<rparr>
   = Inl (NotImplementedError ''text/plain'')"
  by (simp add: request_matched_def process_matched_def expected_media_def decode_v20_def
      headers_get_def keys_def content_type_lower before_first_def str_int_200
      str_lower_def lower_char_def)

subsection \<open>Responses with status 204\<close>

text \<open>C5, as amended. In glue.py a response with status 204 returns \<^verbatim>\<open>None\<close> whenever the operation
  declares a response for 204 or a default response, whatever the plugins, the JSON
  parser, the headers and the body are (so none of them is called); when the operation
  declares neither, the call fails with the unexpected-status error, since the lookup of
  the status comes before the test for 204.\<close>

theorem no_content_204:
  assumes "status_code result = 204"
  shows "process pl jl opid rs result =
           (case expected_response rs ''204'' of
              Some er \<Rightarrow> Inr PyNone
            | None \<Rightarrow>
                Inl (ValueError (''Unexpected response 204 from '' @ opid
                       @ '' (expected one of '' @ join '','' (keys rs)
                       @ ''), no default is defined'')))"
proof -
  have "str_int (status_code result) = ''204''" using assms by (simp add: str_int_204)
  then show ?thesis
    by (simp add: process_def process_matched_def split: option.split)
qed

text \<open>The witness runs plugins and a parser that raise whenever they are called.\<close>

theorem no_content_204_witness:
  "status_code \<lparr>status_code = 204, env_headers = [''content-type'' \<mapsto> ''application/json''],
                 env_text = ''not json''\<rparr> = 204
   \<and> process raising_plugins (\<lambda>_. Inl (ValueError ''json'')) ''deletePet''
         [(''default'', \<lparr>rs_schema = plain_schema\<rparr>)]
         \<lparr>status_code = 204, env_headers = [''content-type'' \<mapsto> ''application/json''],
          env_text = ''not json''\<rparr>
       = Inr PyNone"
  using no_content_204
    [of "\<lparr>status_code = 204, env_headers = [''content-type'' \<mapsto> ''application/json''],
          env_text = ''not json''\<rparr>"
        raising_plugins "\<lambda>_. Inl (ValueError ''json'')" "''deletePet''"
        "[(''default'', \<lparr>rs_schema = plain_schema\<rparr>)]"]
  by (simp add: expected_response_def)

text \<open>C5 as stated fails twice: glue.py rejects a 204 that the operation does not declare, and
  paths.py has no special case for 204 and decodes the body of a 204 like any other.\<close>

theorem no_content_204_counterexample:
  "process identity_plugins (\<lambda>_. Inr (PyDict [])) ''deletePet''
     [(''200'', \<lparr>rs_schema = plain_schema\<rparr>)]
     \<lparr>status_code = 204, env_headers = Map.empty, env_text = []\<rparr>
   = Inl (ValueError
       ''Unexpected response 204 from deletePet (expected one of 200), no default is defined'')
   \<and> request_result (\<lambda>_. Inr (PyDict [])) ''deletePet''
     [(''204'', \<lparr>rs_content = Some [(''application/json'', \<lparr>mt_schema = Some plain_schema\<rparr>)]\<rparr>)]
     \<lparr>status_code = 204, env_headers = [''content-type'' \<mapsto> ''application/json''],
      env_text = ''{}''\<rparr>
   = Inr (PyDict [])"
  by (simp add: process_def request_result_def request_matched_def expected_response_def
      expected_media_def decode_v30_def and_then_def headers_get_def keys_def str_int_204_val
      content_type_lower plain_schema_def str_lower_def lower_char_def)

subsection \<open>Responses without a Content-Type header\<close>

text \<open>C10. A response whose status is not 204, whose status has a response object (its own or
  the default one) and which carries no Content-Type header makes glue.py fail with the
  AttributeError of \<^verbatim>\<open>None.lower()\<close> and paths.py with the KeyError of the header access:
  neither reports an unexpected content type.\<close>

theorem missing_content_type_unstructured:
  assumes "status_code result \<noteq> 204"
    and "headers_get (env_headers result) ''Content-Type'' = None"
    and "expected_response rs20 (str_int (status_code result)) = Some er20"
    and "expected_response rs30 (str_int (status_code result)) = Some er30"
  shows "process pl jl opid rs20 result =
           Inl (AttributeError ''NoneType object has no attribute lower'')
       \<and> request_result jl opid rs30 result = Inl (KeyError ''content-type'')"
  using assms
  by (simp add: process_def process_matched_def request_result_def request_matched_def str_int_204)

theorem missing_content_type_unstructured_witness:
  "status_code \<lparr>status_code = 200, env_headers = Map.empty, env_text = ''{}''\<rparr> \<noteq> 204
   \<and> headers_get (env_headers \<lparr>status_code = 200, env_headers = Map.empty, env_text = ''{}''\<rparr>)
         ''Content-Type'' = None
   \<and> expected_response [(''200'', \<lparr>rs_schema = plain_schema\<rparr>)]
         (str_int (status_code \<lparr>status_code = 200, env_headers = Map.empty, env_text = ''{}''\<rparr>))
       = Some \<lparr>rs_schema = plain_schema\<rparr>
   \<and> expected_response
         [(''default'', \<lparr>rs_content = Some [(''application/json'', \<lparr>mt_schema = Some plain_schema\<rparr>)]\<rparr>)]
         (str_int (status_code \<lparr>status_code = 200, env_headers = Map.empty, env_text = ''{}''\<rparr>))
       = Some \<lparr>rs_content = Some [(''application/json'', \<lparr>mt_schema = Some plain_schema\<rparr>)]\<rparr>
   \<and> process identity_plugins (\<lambda>_. Inr PyNone) ''getPet''
         [(''200'', \<lparr>rs_schema = plain_schema\<rparr>)]
         \<lparr>status_code = 200, env_headers = Map.empty, env_text = ''{}''\<rparr>
       = Inl (AttributeError ''NoneType object has no attribute lower'')
   \<and> request_result (\<lambda>_. Inr PyNone) ''getPet''
         [(''default'', \<lparr>rs_content = Some [(''application/json'', \<lparr>mt_schema = Some plain_schema\<rparr>)]\<rparr>)]
         \<lparr>status_code = 200, env_headers = Map.empty, env_text = ''{}''\<rparr>
       = Inl (KeyError ''content-type'')"
  using missing_content_type_unstructured
    [of "\<lparr>status_code = 200, env_headers = Map.empty, env_text = ''{}''\<rparr>"
        "[(''200'', \<lparr>rs_schema = plain_schema\<rparr>)]"
        "\<lparr>rs_schema = plain_schema\<rparr>"
        "[(''default'', \<lparr>rs_content = Some [(''application/json'', \<lparr>mt_schema = Some plain_schema\<rparr>)]\<rparr>)]"
        "\<lparr>rs_content = Some [(''application/json'', \<lparr>mt_schema = Some plain_schema\<rparr>)]\<rparr>"
        identity_plugins "\<lambda>_. Inr PyNone" "''getPet''"]
  by (simp add: headers_get_def expected_response_def str_int_200)

subsection \<open>Security requirements\<close>

lemma match_credentials_empty [simp]: "match_credentials credentials [] = None"
  by (induction credentials) simp_all

lemma match_credentials_nonempty:
  "match_credentials credentials sec = Some rv \<Longrightarrow> credentials \<noteq> [] \<and> sec \<noteq> []"
  by (cases credentials; cases sec) auto







text \<open>C7. With credentials that match no accepted requirement, both binders fail with the
  AttributeError raised while the message of the intended ValueError is built.\<close>

theorem unsatisfied_security_attribute_error:
  "prepare_security [(''other'', PyStr ''x'')]
     (Some [\<lparr>sr_name = ''apiKeyAuth'', sr_types = []\<rparr>]) [] defs rq
   = Inl (AttributeError ''list object has no attribute keys'')
   \<and> request_security fmt [(''other'', PyStr ''x'')]
     [\<lparr>sr_name = ''apiKeyAuth'', sr_types = []\<rparr>] schemes lc
   = Inl (AttributeError ''list object has no attribute keys'')"
  by (simp add: prepare_security_def security_alternatives_def request_security_def)

subsection \<open>Request bodies\<close>

lemma prepare_body_type_mismatch:
  assumes "body_schema op_parameters = Some sch"
    and "''application/json'' \<in> set consumes"
    and "data \<noteq> PyNone \<or> \<not> sch_required sch"
    and "\<not> is_structured data"
    and "\<forall>fs. data \<noteq> PyModel fs"
  shows "prepare_body pl json_dumps opid op_parameters consumes data rq = Inl (TypeError data)"
  using assms by (cases data) (auto simp: prepare_body_def and_then_def)

lemma prepare_body_model:
  "prepare_body pl json_dumps opid op_parameters consumes (PyModel fs) rq =
   prepare_body pl json_dumps opid op_parameters consumes (plain_value (PyModel fs)) rq"
  by (simp add: prepare_body_def and_then_def split: option.split)

text \<open>C8. paths.py accepts a raw number as the data of an \<^verbatim>\<open>application/json\<close> body: nothing is
  raised, no body is set and the Content-Type header is. glue.py raises TypeError.\<close>

theorem raw_number_body_not_rejected:
  "request_body_phase json_dumps json_dumps_default
     (Some \<lparr>rb_required = True, rb_content = [(''application/json'', \<lparr>mt_schema = Some plain_schema\<rparr>)]\<rparr>)
     (PyInt 5)
     \<lparr>rq_body = None, rq_headers = [], rq_path = ''/pets'', rq_query_params = [],
      rq_auth = None, rq_cert = None\<rparr>
   = Inr \<lparr>rq_body = None, rq_headers = [(''Content-Type'', PyStr ''application/json'')],
          rq_path = ''/pets'', rq_query_params = [], rq_auth = None, rq_cert = None\<rparr>
   \<and> prepare_body pl json_dumps opid
     [\<lparr>par_name = ''body'', par_in = ''body'', par_required = True, par_schema = plain_schema\<rparr>]
     [''application/json''] (PyInt 5) rq
   = Inl (TypeError (PyInt 5))"
  by (simp add: request_body_phase_def prepare_body_def body_schema_def keys_def and_then_def
      plain_schema_def)

subsection \<open>Accepted parameters\<close>

lemma map_of_dict_update: "map_of (dict_update d e) = map_of d ++ map_of (rev e)"
proof (induction e arbitrary: d)
  case Nil
  then show ?case by (simp add: dict_update_def)
next
  case (Cons x e)
  obtain k v where x: "x = (k, v)" by (cases x)
  have "dict_update d (x # e) = dict_update (AList.update k v d) e"
    by (simp add: dict_update_def x)
  then have "map_of (dict_update d (x # e)) = map_of (AList.update k v d) ++ map_of (rev e)"
    by (simp only: Cons.IH)
  also have "map_of (AList.update k v d) = map_of d ++ [k \<mapsto> v]"
    by (simp only: update_conv') simp
  also have "(map_of d ++ [k \<mapsto> v]) ++ map_of (rev e) = map_of d ++ map_of (rev (x # e))"
    by (simp add: x)
  finally show ?case .
qed

lemma map_of_dict_of: "map_of (dict_of kvs) = map_of (rev kvs)"
  by (simp add: dict_of_def map_of_dict_update)

lemma distinct_dict_update:
  "distinct (map fst d) \<Longrightarrow> distinct (map fst (dict_update d e))"
proof (induction e arbitrary: d)
  case Nil
  then show ?case by (simp add: dict_update_def)
next
  case (Cons x e)
  have "dict_update d (x # e) = dict_update (AList.update (fst x) (snd x) d) e"
    by (simp add: dict_update_def)
  with Cons show ?case by (simp add: distinct_update)
qed

lemma distinct_dict_of: "distinct (map fst (dict_of kvs))"
  by (simp add: dict_of_def distinct_dict_update)

lemma map_of_rev_distinct: "distinct (map fst xs) \<Longrightarrow> map_of (rev xs) = map_of xs"
proof (induction xs)
  case Nil
  then show ?case by simp
next
  case (Cons x xs)
  obtain k v where x: "x = (k, v)" by (cases x)
  from Cons.prems x have k: "k \<notin> fst ` set xs" by simp
  then have "map_of xs k = None" by (simp add: map_of_eq_None_iff)
  then have "[k \<mapsto> v] ++ map_of xs = (map_of xs)(k \<mapsto> v)"
    by (auto simp: map_add_def fun_eq_iff split: option.splits)
  with Cons x show ?case by simp
qed

lemma map_of_rev_named:
  "map_of (rev (map (\<lambda>p. (par_name p, p)) xs)) n =
     (case filter (\<lambda>x. par_name x = n) xs of [] \<Rightarrow> None | y # ys \<Rightarrow> Some (last (y # ys)))"
proof (induction xs rule: rev_induct)
  case Nil
  then show ?case by simp
next
  case (snoc x xs)
  show ?case
  proof (cases "par_name x = n")
    case True
    then have "filter (\<lambda>x. par_name x = n) (xs @ [x]) = filter (\<lambda>x. par_name x = n) xs @ [x]"
      by simp
    moreover obtain y ys where "filter (\<lambda>x. par_name x = n) xs @ [x] = y # ys"
      by (cases "filter (\<lambda>x. par_name x = n) xs @ [x]") auto
    moreover have "last (filter (\<lambda>x. par_name x = n) xs @ [x]) = x" by simp
    ultimately have "(case filter (\<lambda>x. par_name x = n) (xs @ [x]) of
        [] \<Rightarrow> None | y # ys \<Rightarrow> Some (last (y # ys))) = Some x"
      by (metis list.simps(5))
    with True show ?thesis by simp
  next
    case False
    then have "filter (\<lambda>x. par_name x = n) (xs @ [x]) = filter (\<lambda>x. par_name x = n) xs"
      by simp
    with False snoc show ?thesis by simp
  qed
qed

lemma last_named_append:
  assumes "filter P ys \<noteq> []"
  shows "(case filter P (xs @ ys) of [] \<Rightarrow> None | z # zs \<Rightarrow> Some (last (z # zs)))
         = Some (last (filter P ys))"
proof -
  obtain z zs where zs: "filter P (xs @ ys) = z # zs"
    using assms by (cases "filter P (xs @ ys)") auto
  have "last (filter P (xs @ ys)) = last (filter P ys)"
    using assms by simp
  with zs show ?thesis by simp
qed

text \<open>C1, as amended. When the owning path declares a parameter of a name (in glue.py: one whose
  location is not \<^verbatim>\<open>body\<close>), the accepted-parameter map used for binding holds, under that
  name, the path's entry (the last one the path declares with that name), whatever the
  operation declares: on a collision of names the path-level parameter takes precedence.\<close>

theorem path_level_parameter_wins:
  "(filter (\<lambda>x. par_name x = n \<and> par_in x \<noteq> ''body'') path_parameters \<noteq> [] \<longrightarrow>
      map_of (accepted_parameters op_parameters path_parameters) n
        = Some (last (filter (\<lambda>x. par_name x = n \<and> par_in x \<noteq> ''body'') path_parameters)))
   \<and> (filter (\<lambda>x. par_name x = n) path_parameters \<noteq> [] \<longrightarrow>
      map_of (accepted_parameters_v30 op_parameters path_parameters) n
        = Some (last (filter (\<lambda>x. par_name x = n) path_parameters)))"
proof (intro conjI impI)
  let ?nb = "\<lambda>x. par_in x \<noteq> ''body''"
  let ?nm = "\<lambda>x. par_name x = n"
  assume a: "filter (\<lambda>x. par_name x = n \<and> par_in x \<noteq> ''body'') path_parameters \<noteq> []"
  have f: "filter ?nm (filter ?nb xs) = filter (\<lambda>x. par_name x = n \<and> par_in x \<noteq> ''body'') xs"
    for xs :: "parameter list"
    by (induction xs) simp_all
  have "map_of (accepted_parameters op_parameters path_parameters) n =
        (case filter ?nm (filter ?nb op_parameters @ filter ?nb path_parameters) of
           [] \<Rightarrow> None | y # ys \<Rightarrow> Some (last (y # ys)))"
    by (simp only: accepted_parameters_def map_of_dict_of map_of_rev_named filter_append)
  also have "\<dots> = Some (last (filter ?nm (filter ?nb path_parameters)))"
    by (rule last_named_append) (unfold f, rule a)
  finally show "map_of (accepted_parameters op_parameters path_parameters) n
        = Some (last (filter (\<lambda>x. par_name x = n \<and> par_in x \<noteq> ''body'') path_parameters))"
    by (simp only: f)
next
  let ?f = "\<lambda>p. (par_name p, p)"
  assume a: "filter (\<lambda>x. par_name x = n) path_parameters \<noteq> []"
  have "map_of (rev (dict_of (map ?f path_parameters))) = map_of (dict_of (map ?f path_parameters))"
    by (rule map_of_rev_distinct) (rule distinct_dict_of)
  then have "map_of (accepted_parameters_v30 op_parameters path_parameters) n =
        (map_of (rev (map ?f op_parameters)) ++ map_of (rev (map ?f path_parameters))) n"
    by (simp add: accepted_parameters_v30_def map_of_dict_update map_of_dict_of)
  also have "\<dots> = Some (last (filter (\<lambda>x. par_name x = n) path_parameters))"
    using a by (simp add: map_add_def map_of_rev_named split: list.splits)
  finally show "map_of (accepted_parameters_v30 op_parameters path_parameters) n
        = Some (last (filter (\<lambda>x. par_name x = n) path_parameters))" .
qed

theorem path_level_parameter_wins_witness:
  "filter (\<lambda>x. par_name x = ''id'' \<and> par_in x \<noteq> ''body'')
     [\<lparr>par_name = ''id'', par_in = ''header'', par_required = True, par_schema = plain_schema\<rparr>] \<noteq> []
   \<and> map_of (accepted_parameters
         [\<lparr>par_name = ''id'', par_in = ''query'', par_required = False, par_schema = plain_schema\<rparr>]
         [\<lparr>par_name = ''id'', par_in = ''header'', par_required = True, par_schema = plain_schema\<rparr>])
         ''id''
       = Some \<lparr>par_name = ''id'', par_in = ''header'', par_required = True, par_schema = plain_schema\<rparr>
   \<and> filter (\<lambda>x. par_name x = ''id'')
     [\<lparr>par_name = ''id'', par_in = ''header'', par_required = True, par_schema = plain_schema\<rparr>] \<noteq> []
   \<and> map_of (accepted_parameters_v30
         [\<lparr>par_name = ''id'', par_in = ''query'', par_required = False, par_schema = plain_schema\<rparr>]
         [\<lparr>par_name = ''id'', par_in = ''header'', par_required = True, par_schema = plain_schema\<rparr>])
         ''id''
       = Some \<lparr>par_name = ''id'', par_in = ''header'', par_required = True, par_schema = plain_schema\<rparr>"
  using path_level_parameter_wins
    [of "''id''"
        "[\<lparr>par_name = ''id'', par_in = ''header'', par_required = True, par_schema = plain_schema\<rparr>]"
        "[\<lparr>par_name = ''id'', par_in = ''query'', par_required = False, par_schema = plain_schema\<rparr>]"]
  by simp

text \<open>C1 as stated fails in both binders: the operation declares \<^verbatim>\<open>id\<close> as a query parameter, the
  path declares \<^verbatim>\<open>id\<close> as a header, and the merged map does not hold the operation's entry.\<close>

theorem path_level_parameter_wins_counterexample:
  "map_of (accepted_parameters
      [\<lparr>par_name = ''id'', par_in = ''query'', par_required = False, par_schema = plain_schema\<rparr>]
      [\<lparr>par_name = ''id'', par_in = ''header'', par_required = True, par_schema = plain_schema\<rparr>])
      ''id''
    \<noteq> Some \<lparr>par_name = ''id'', par_in = ''query'', par_required = False, par_schema = plain_schema\<rparr>
   \<and> map_of (accepted_parameters_v30
      [\<lparr>par_name = ''id'', par_in = ''query'', par_required = False, par_schema = plain_schema\<rparr>]
      [\<lparr>par_name = ''id'', par_in = ''header'', par_required = True, par_schema = plain_schema\<rparr>])
      ''id''
    \<noteq> Some \<lparr>par_name = ''id'', par_in = ''query'', par_required = False, par_schema = plain_schema\<rparr>"
  by (simp add: accepted_parameters_def accepted_parameters_v30_def dict_of_def dict_update_def)

subsection \<open>Formatting a plain template\<close>

lemma and_then_Inr: "and_then r f = Inr y \<longleftrightarrow> (\<exists>x. r = Inr x \<and> f x = Inr y)"
  by (cases r) (simp_all add: and_then_def)

lemma and_then_assoc_cons:
  "and_then (and_then r (\<lambda>s. Inr (f s))) (\<lambda>s. Inr (g s)) = and_then r (\<lambda>s. Inr (g (f s)))"
  by (cases r) (simp_all add: and_then_def)

lemma name_char_no_brace: "name_char c \<Longrightarrow> c \<noteq> CHR ''{'' \<and> c \<noteq> CHR ''}''"
  by (auto simp: name_char_def)

lemma format_text_literal:
  "brace_free lit \<Longrightarrow>
   format_text fmt args kwargs (lit @ rest) =
     and_then (format_text fmt args kwargs rest) (\<lambda>s. Inr (lit @ s))"
proof (induction lit)
  case Nil
  show ?case by (cases "format_text fmt args kwargs rest") (simp_all add: and_then_def)
next
  case (Cons c lit)
  then have c: "c \<noteq> CHR ''{''" "c \<noteq> CHR ''}''" and lit: "brace_free lit"
    by (auto simp: brace_free_def)
  show ?case
    using c Cons.IH[OF lit] by (simp add: and_then_assoc_cons)
qed

lemma format_field_name:
  assumes "list_all name_char name" "plain_name (acc @ name)"
  shows "format_field fmt args kwargs whole acc (name @ CHR ''}'' # rest) =
     (case map_of kwargs (acc @ name) of
        None \<Rightarrow> Inl (KeyError (acc @ name))
      | Some v \<Rightarrow> and_then (format_text fmt args kwargs rest) (\<lambda>s. Inr (value_text fmt v @ s)))"
  using assms
proof (induction name arbitrary: acc)
  case Nil
  then show ?case by (simp split: option.split)
next
  case (Cons c name)
  then have c: "c \<noteq> CHR ''}''" "name_char c" and name: "list_all name_char name"
    by (auto dest: name_char_no_brace)
  from Cons.prems(2) have "plain_name ((acc @ [c]) @ name)" by simp
  from Cons.IH[OF name this] c show ?case by (simp cong: option.case_cong)
qed

lemma format_text_placeholder:
  assumes "plain_name name"
  shows "format_text fmt args kwargs (CHR ''{'' # name @ CHR ''}'' # rest) =
     (case map_of kwargs name of
        None \<Rightarrow> Inl (KeyError name)
      | Some v \<Rightarrow> and_then (format_text fmt args kwargs rest) (\<lambda>s. Inr (value_text fmt v @ s)))"
proof -
  from assms obtain d r where dr: "name = d # r" by (cases name) (auto simp: plain_name_def)
  from assms have nc: "list_all name_char name" by (simp add: plain_name_def)
  with dr have d: "d \<noteq> CHR ''{''" by (auto dest: name_char_no_brace)
  have A: "format_text fmt args kwargs (CHR ''{'' # name @ CHR ''}'' # rest) =
        format_field fmt args kwargs (CHR ''{'' # name @ CHR ''}'' # rest) [] (name @ CHR ''}'' # rest)"
    using dr d by simp
  have B: "format_field fmt args kwargs whole [] (name @ CHR ''}'' # rest) =
      (case map_of kwargs name of
        None \<Rightarrow> Inl (KeyError name)
      | Some v \<Rightarrow> and_then (format_text fmt args kwargs rest) (\<lambda>s. Inr (value_text fmt v @ s)))"
    for whole
    using format_field_name[of name "[]" fmt args kwargs whole rest] nc assms
    by (simp split: option.split)
  show ?thesis by (simp only: A B)
qed

lemma format_text_template:
  assumes "list_all plain_segment segs"
    and "\<forall>n \<in> set (placeholders segs). map_of kwargs n \<noteq> None"
  shows "format_text fmt args kwargs (template_of segs)
         = Inr (render (value_text fmt) (map_of kwargs) segs)"
  using assms
proof (induction segs)
  case Nil
  show ?case by (simp add: template_of_def)
next
  case (Cons seg segs)
  show ?case
  proof (cases seg)
    case (Literal s)
    with Cons.prems have s: "brace_free s" and rest: "list_all plain_segment segs"
      "\<forall>n \<in> set (placeholders segs). map_of kwargs n \<noteq> None" by simp_all
    have "template_of (seg # segs) = s @ template_of segs"
      using Literal by (simp add: template_of_def)
    with format_text_literal[OF s] Cons.IH[OF rest] Literal show ?thesis
      by (simp add: and_then_def)
  next
    case (Placeholder n)
    with Cons.prems have n: "plain_name n" and rest: "list_all plain_segment segs"
      "\<forall>n \<in> set (placeholders segs). map_of kwargs n \<noteq> None" by simp_all
    from Cons.prems Placeholder obtain v where v: "map_of kwargs n = Some v" by auto
    have eq: "template_of (seg # segs) = CHR ''{'' # n @ CHR ''}'' # template_of segs"
      using Placeholder by (simp add: template_of_def)
    have "format_text fmt args kwargs (template_of (seg # segs)) =
        (case map_of kwargs n of
           None \<Rightarrow> Inl (KeyError n)
         | Some v \<Rightarrow> and_then (format_text fmt args kwargs (template_of segs))
                      (\<lambda>s. Inr (value_text fmt v @ s)))"
      unfolding eq by (rule format_text_placeholder[OF n])
    with Cons.IH[OF rest] v Placeholder show ?thesis
      by (simp add: and_then_def)
  qed
qed

lemma format_text_missing_key:
  assumes "list_all plain_segment segs"
    and "\<forall>n \<in> set (placeholders segs). map_of kwargs n \<noteq> None"
    and "plain_name n" and "map_of kwargs n = None"
  shows "format_text fmt args kwargs (template_of segs @ CHR ''{'' # n @ CHR ''}'' # rest)
         = Inl (KeyError n)"
  using assms(1,2)
proof (induction segs)
  case Nil
  show ?case using format_text_placeholder[OF assms(3), of fmt args kwargs rest] assms(4)
    by (simp add: template_of_def)
next
  case (Cons seg segs)
  show ?case
  proof (cases seg)
    case (Literal s)
    with Cons.prems have s: "brace_free s" and rest: "list_all plain_segment segs"
      "\<forall>n \<in> set (placeholders segs). map_of kwargs n \<noteq> None" by simp_all
    have "template_of (seg # segs) @ CHR ''{'' # n @ CHR ''}'' # rest
          = s @ (template_of segs @ CHR ''{'' # n @ CHR ''}'' # rest)"
      using Literal by (simp add: template_of_def)
    with format_text_literal[OF s] Cons.IH[OF rest] show ?thesis by (simp add: and_then_def)
  next
    case (Placeholder m)
    with Cons.prems have m: "plain_name m" and rest: "list_all plain_segment segs"
      "\<forall>n \<in> set (placeholders segs). map_of kwargs n \<noteq> None" by simp_all
    from Cons.prems Placeholder obtain v where v: "map_of kwargs m = Some v" by auto
    have eq: "template_of (seg # segs) @ CHR ''{'' # n @ CHR ''}'' # rest
          = CHR ''{'' # m @ CHR ''}'' # (template_of segs @ CHR ''{'' # n @ CHR ''}'' # rest)"
      using Placeholder by (simp add: template_of_def)
    have "format_text fmt args kwargs
            (CHR ''{'' # m @ CHR ''}'' # (template_of segs @ CHR ''{'' # n @ CHR ''}'' # rest))
          = and_then (format_text fmt args kwargs
                        (template_of segs @ CHR ''{'' # n @ CHR ''}'' # rest))
              (\<lambda>s. Inr (value_text fmt v @ s))"
      using format_text_placeholder[OF m, of fmt args kwargs] v by (simp only: option.case)
    with Cons.IH[OF rest] show ?thesis
      unfolding eq by (simp add: and_then_def)
  qed
qed

lemma brace_free_append [simp]: "brace_free (a @ b) \<longleftrightarrow> brace_free a \<and> brace_free b"
  by (auto simp: brace_free_def)

lemma render_brace_free:
  assumes "list_all plain_segment segs"
    and "\<forall>n \<in> set (placeholders segs). \<forall>v. m n = Some v \<longrightarrow> brace_free (text v)"
  shows "brace_free (render text m segs)"
  using assms
proof (induction segs)
  case Nil
  show ?case by (simp add: brace_free_def)
next
  case (Cons seg segs)
  then show ?case
    by (cases seg) (auto simp: brace_free_def split: option.splits)
qed
subsection \<open>Path parameters\<close>

lemma bind_parameters_step:
  "bind_parameters parameters ((k, spec) # rest) (pv0, r0) =
     (case caller_value parameters k of
        None \<Rightarrow>
          if par_required spec
          then Inl (ValueError (''Required parameter '' @ k @ '' not provided''))
          else bind_parameters parameters rest (pv0, r0)
      | Some v \<Rightarrow>
          bind_parameters parameters rest
            (if par_in spec = ''path'' then AList.update k v pv0 else pv0,
             let r1 = (if par_in spec = ''query''
                       then r0\<lparr>req_params := AList.update k v (req_params r0)\<rparr> else r0);
                 r2 = (if par_in spec = ''header''
                       then r1\<lparr>req_headers := AList.update k v (req_headers r1)\<rparr> else r1)
             in (if par_in spec = ''cookie''
                 then r2\<lparr>req_cookies := AList.update k v (req_cookies r2)\<rparr> else r2)))"
  by (cases parameters; cases "caller_value parameters k")
     (simp_all add: caller_value_def Let_def)

lemma bind_parameters_supplied:
  assumes "\<forall>ns \<in> set acc. par_required (snd ns) \<longrightarrow> caller_value parameters (fst ns) \<noteq> None"
  shows "\<exists>pv r. bind_parameters parameters acc (pv0, r0) = Inr (pv, r)
           \<and> req_url r = req_url r0
           \<and> (\<forall>n. map_of pv n =
                 (if (\<exists>spec. (n, spec) \<in> set acc \<and> par_in spec = ''path'') \<and> caller_value parameters n \<noteq> None
                  then caller_value parameters n else map_of pv0 n))"
  using assms
proof (induction acc arbitrary: pv0 r0)
  case Nil
  then show ?case by simp
next
  case (Cons ns rest)
  obtain k spec where ns: "ns = (k, spec)" by (cases ns)
  from Cons.prems have rest: "\<forall>ns \<in> set rest. par_required (snd ns) \<longrightarrow> caller_value parameters (fst ns) \<noteq> None"
    by simp
  show ?case
  proof (cases "caller_value parameters k")
    case None
    with Cons.prems ns have nr: "\<not> par_required spec" by auto
    from Cons.IH[OF rest, of pv0 r0] obtain pv r where
      h: "bind_parameters parameters rest (pv0, r0) = Inr (pv, r)" "req_url r = req_url r0"
         "\<forall>n. map_of pv n =
            (if (\<exists>spec. (n, spec) \<in> set rest \<and> par_in spec = ''path'') \<and> caller_value parameters n \<noteq> None
             then caller_value parameters n else map_of pv0 n)"
      by blast
    have "bind_parameters parameters (ns # rest) (pv0, r0) = Inr (pv, r)"
      using None nr h(1) ns by (simp only: bind_parameters_step) simp
    moreover have "\<forall>n. map_of pv n =
            (if (\<exists>spec. (n, spec) \<in> set (ns # rest) \<and> par_in spec = ''path'') \<and> caller_value parameters n \<noteq> None
             then caller_value parameters n else map_of pv0 n)"
      using h(3) None ns by auto
    ultimately show ?thesis using h(2) by blast
  next
    case (Some v)
    define pp where "pp = (if par_in spec = ''path'' then AList.update k v pv0 else pv0)"
    define r1 where "r1 = (if par_in spec = ''query''
                     then r0\<lparr>req_params := AList.update k v (req_params r0)\<rparr> else r0)"
    define r2 where "r2 = (if par_in spec = ''header''
                     then r1\<lparr>req_headers := AList.update k v (req_headers r1)\<rparr> else r1)"
    define r3 where "r3 = (if par_in spec = ''cookie''
                     then r2\<lparr>req_cookies := AList.update k v (req_cookies r2)\<rparr> else r2)"
    have url: "req_url r3 = req_url r0" by (simp add: r3_def r2_def r1_def)
    have step: "bind_parameters parameters (ns # rest) (pv0, r0) = bind_parameters parameters rest (pp, r3)"
      using Some ns by (simp only: bind_parameters_step) (simp add: pp_def r3_def r2_def r1_def Let_def)
    from Cons.IH[OF rest, of pp r3] obtain pv r where
      h: "bind_parameters parameters rest (pp, r3) = Inr (pv, r)" "req_url r = req_url r3"
         "\<forall>n. map_of pv n =
            (if (\<exists>spec. (n, spec) \<in> set rest \<and> par_in spec = ''path'') \<and> caller_value parameters n \<noteq> None
             then caller_value parameters n else map_of pp n)"
      by blast
    have "\<forall>n. map_of pv n =
            (if (\<exists>spec. (n, spec) \<in> set (ns # rest) \<and> par_in spec = ''path'') \<and> caller_value parameters n \<noteq> None
             then caller_value parameters n else map_of pv0 n)"
    proof
      fix n
      show "map_of pv n =
            (if (\<exists>spec. (n, spec) \<in> set (ns # rest) \<and> par_in spec = ''path'') \<and> caller_value parameters n \<noteq> None
             then caller_value parameters n else map_of pv0 n)"
      proof (cases "n = k \<and> par_in spec = ''path''")
        case True
        then have "map_of pp n = caller_value parameters n" using Some by (simp add: pp_def update_conv')
        with h(3) True Some ns show ?thesis by auto
      next
        case False
        then have "map_of pp n = map_of pv0 n \<or> (n = k \<and> par_in spec \<noteq> ''path'')"
          by (auto simp: pp_def update_conv')
        then have "map_of pp n = map_of pv0 n" using False by (auto simp: pp_def)
        with h(3) False ns show ?thesis by auto
      qed
    qed
    with step h(1,2) url show ?thesis by auto
  qed
qed

text \<open>C2, as amended. In glue.py, when the caller supplies a value for every required accepted
  parameter (no value at all when \<^verbatim>\<open>parameters\<close> is \<^verbatim>\<open>None\<close>), the loop over the parameters
  succeeds, leaves the url as it was and collects exactly the supplied values of the
  path-location parameters; the url template is then formatted once, with all of them.
  When the template is plain (literal text without braces, and placeholders \<^verbatim>\<open>{name}\<close> with a
  plain keyword name) and every placeholder names a collected value, that format succeeds
  and the assembled path is the template with every placeholder replaced by the text of
  its value; it holds no brace when the text of no collected value holds one.\<close>

theorem path_template_formatted_once:
  assumes supplied:
    "\<forall>ns \<in> set (accepted_parameters op_parameters path_parameters).
       par_required (snd ns) \<longrightarrow> caller_value parameters (fst ns) \<noteq> None"
  shows "\<exists>pv rq1.
      bind_parameters parameters (accepted_parameters op_parameters path_parameters) ([], rq)
        = Inr (pv, rq1)
    \<and> req_url rq1 = req_url rq
    \<and> (\<forall>n. map_of pv n =
          (if \<exists>spec. (n, spec) \<in> set (accepted_parameters op_parameters path_parameters)
                \<and> par_in spec = ''path''
           then caller_value parameters n else None))
    \<and> prepare_parameters fmt op_parameters path_parameters parameters rq
        = and_then (str_format fmt (req_url rq) [] pv) (\<lambda>u. Inr (rq1\<lparr>req_url := u\<rparr>))
    \<and> (\<forall>segs. req_url rq = template_of segs
          \<longrightarrow> list_all plain_segment segs
          \<longrightarrow> (\<forall>n \<in> set (placeholders segs). map_of pv n \<noteq> None)
          \<longrightarrow> prepare_parameters fmt op_parameters path_parameters parameters rq
                = Inr (rq1\<lparr>req_url := render (value_text fmt) (map_of pv) segs\<rparr>)
              \<and> ((\<forall>n v. map_of pv n = Some v \<longrightarrow> brace_free (value_text fmt v))
                   \<longrightarrow> brace_free (render (value_text fmt) (map_of pv) segs)))"
proof -
  let ?acc = "accepted_parameters op_parameters path_parameters"
  from bind_parameters_supplied[OF supplied, of "[]" rq] obtain pv rq1 where
    b: "bind_parameters parameters ?acc ([], rq) = Inr (pv, rq1)"
    and url: "req_url rq1 = req_url rq"
    and pv: "\<forall>n. map_of pv n =
        (if (\<exists>spec. (n, spec) \<in> set ?acc \<and> par_in spec = ''path'')
               \<and> caller_value parameters n \<noteq> None
         then caller_value parameters n else map_of [] n)"
    by blast
  have pv': "\<forall>n. map_of pv n =
      (if \<exists>spec. (n, spec) \<in> set ?acc \<and> par_in spec = ''path''
       then caller_value parameters n else None)"
    using pv by auto
  have prep: "prepare_parameters fmt op_parameters path_parameters parameters rq
      = and_then (str_format fmt (req_url rq) [] pv) (\<lambda>u. Inr (rq1\<lparr>req_url := u\<rparr>))"
    by (cases "str_format fmt (req_url rq) [] pv")
      (simp_all add: prepare_parameters_def b url and_then_def)
  have plain: "prepare_parameters fmt op_parameters path_parameters parameters rq
        = Inr (rq1\<lparr>req_url := render (value_text fmt) (map_of pv) segs\<rparr>)
      \<and> ((\<forall>n v. map_of pv n = Some v \<longrightarrow> brace_free (value_text fmt v))
           \<longrightarrow> brace_free (render (value_text fmt) (map_of pv) segs))"
    if t: "req_url rq = template_of segs" and p: "list_all plain_segment segs"
      and k: "\<forall>n \<in> set (placeholders segs). map_of pv n \<noteq> None" for segs
  proof
    show "prepare_parameters fmt op_parameters path_parameters parameters rq
        = Inr (rq1\<lparr>req_url := render (value_text fmt) (map_of pv) segs\<rparr>)"
      using format_text_template[OF p k, of fmt "[]"] t
      by (simp add: prep str_format_def and_then_def)
    show "(\<forall>n v. map_of pv n = Some v \<longrightarrow> brace_free (value_text fmt v))
           \<longrightarrow> brace_free (render (value_text fmt) (map_of pv) segs)"
      using render_brace_free[OF p, of "map_of pv" "value_text fmt"] by blast
  qed
  from b url pv' prep plain show ?thesis by blast
qed

theorem path_template_formatted_once_witness:
  "list_all (\<lambda>ns. par_required (snd ns) \<longrightarrow> caller_value (Some [(''petId'', PyInt 7)]) (fst ns) \<noteq> None)
     (accepted_parameters
        [\<lparr>par_name = ''petId'', par_in = ''path'', par_required = True, par_schema = plain_schema\<rparr>,
         \<lparr>par_name = ''limit'', par_in = ''query'', par_required = False, par_schema = plain_schema\<rparr>]
        [])
   \<and> req_url \<lparr>req_url = ''/pets/{petId}'', req_params = [], req_headers = [], req_cookies = [],
               req_auth = None, req_content = None\<rparr>
       = template_of [Literal ''/pets/'', Placeholder ''petId'']
   \<and> list_all plain_segment [Literal ''/pets/'', Placeholder ''petId'']
   \<and> brace_free (value_text plain_formatter (PyInt 7))
   \<and> prepare_parameters plain_formatter
         [\<lparr>par_name = ''petId'', par_in = ''path'', par_required = True, par_schema = plain_schema\<rparr>,
          \<lparr>par_name = ''limit'', par_in = ''query'', par_required = False, par_schema = plain_schema\<rparr>]
         []
         (Some [(''petId'', PyInt 7)])
         \<lparr>req_url = ''/pets/{petId}'', req_params = [], req_headers = [], req_cookies = [],
          req_auth = None, req_content = None\<rparr>
       = Inr \<lparr>req_url = ''/pets/7'', req_params = [], req_headers = [], req_cookies = [],
              req_auth = None, req_content = None\<rparr>
   \<and> brace_free ''/pets/7''"
  using path_template_formatted_once
    [of "[\<lparr>par_name = ''petId'', par_in = ''path'', par_required = True, par_schema = plain_schema\<rparr>,
          \<lparr>par_name = ''limit'', par_in = ''query'', par_required = False, par_schema = plain_schema\<rparr>]"
        "[]" "Some [(''petId'', PyInt 7)]"
        "\<lparr>req_url = ''/pets/{petId}'', req_params = [], req_headers = [], req_cookies = [],
          req_auth = None, req_content = None\<rparr>"
        plain_formatter]
  by (simp add: accepted_parameters_def dict_of_def dict_update_def template_of_def brace_free_def
      caller_value_def plain_name_def name_char_def is_digit_def prepare_parameters_def
      str_format_def plain_formatter_def and_then_def str_int_def str_nat.simps digit_char_def)

text \<open>C2 as stated fails: in glue.py a supplied value that holds braces is copied into the path
  with them; in paths.py each path value is formatted into the template by itself, which
  raises KeyError for the second placeholder although both values were supplied.\<close>

theorem path_template_formatted_once_counterexample:
  "prepare_parameters plain_formatter
     [\<lparr>par_name = ''id'', par_in = ''path'', par_required = True, par_schema = plain_schema\<rparr>] []
     (Some [(''id'', PyStr ''{x}'')])
     \<lparr>req_url = ''/items/{id}'', req_params = [], req_headers = [], req_cookies = [],
      req_auth = None, req_content = None\<rparr>
   = Inr \<lparr>req_url = ''/items/{x}'', req_params = [], req_headers = [], req_cookies = [],
          req_auth = None, req_content = None\<rparr>
   \<and> request_parameters plain_formatter
     [\<lparr>par_name = ''petId'', par_in = ''path'', par_required = True, par_schema = plain_schema\<rparr>,
      \<lparr>par_name = ''toyId'', par_in = ''path'', par_required = True, par_schema = plain_schema\<rparr>] []
     [(''petId'', PyInt 7), (''toyId'', PyStr ''ball'')]
     \<lparr>rq_body = None, rq_headers = [], rq_path = ''/pets/{petId}/toys/{toyId}'',
      rq_query_params = [], rq_auth = None, rq_cert = None\<rparr>
   = Inl (KeyError ''toyId'')"
  by (simp add: accepted_parameters_def accepted_parameters_v30_def dict_of_def dict_update_def
      prepare_parameters_def request_parameters_def str_format_def plain_formatter_def
      plain_name_def name_char_def is_digit_def and_then_def str_int_def str_nat.simps
      digit_char_def)
subsection \<open>Encoding a body and decoding it again\<close>





end
